theory Spec2Isabelle
  imports Main
begin

section \<open>Poco::Data::RecordSet (Data/include/Poco/Data/RecordSet.h)\<close>

text \<open>
  A shallow embedding of the \<^verbatim>\<open>RecordSet\<close> class. Exceptions are values of
  \<open>exn\<close> on the left of a sum; member functions that mutate the object return the
  new object. \<^verbatim>\<open>std::size_t\<close> values are natural numbers: the header does no
  arithmetic on them, it only compares them and uses them as indices. Functions that the
  header declares or calls and that are defined elsewhere are modelled from the spec, and
  say so.
\<close>

subsection \<open>Exceptions, storage kinds and container shapes\<close>

datatype exn =
    RangeException
  | BadCastException
  | NotFoundException
  | IllegalStateException
  | AssertionViolationException

text \<open>
  The template argument \<^verbatim>\<open>C\<close> of \<^verbatim>\<open>Column<T,C>\<close>, at the three
  instantiations the header uses: \<^verbatim>\<open>std::vector<T>\<close>, \<^verbatim>\<open>std::list<T>\<close>,
  \<^verbatim>\<open>std::deque<T>\<close>.
\<close>

datatype container = Vector | List | Deque

text \<open>
  \<^verbatim>\<open>Statement::Storage\<close>. The enumeration is declared in Statement.h; the four
  enumerators are the ones the switch statements of the header name. A C++ enumeration
  object can hold a value that is none of its enumerators: that is \<open>STORAGE_OTHER\<close>,
  the \<^verbatim>\<open>default:\<close> branch of a switch.
\<close>

datatype storage =
    STORAGE_DEQUE
  | STORAGE_VECTOR
  | STORAGE_LIST
  | STORAGE_UNKNOWN
  | STORAGE_OTHER nat

subsection \<open>The extraction set, the statement and the record set\<close>

text \<open>
  One entry of \<^verbatim>\<open>extractions()\<close>: an \<^verbatim>\<open>InternalExtraction<T,C>\<close> behind an
  \<^verbatim>\<open>AbstractExtraction\<close> pointer, with the \<^verbatim>\<open>Column<T,C>\<close> it holds.
  \<open>elemType\<close> and \<open>shape\<close> are the dynamic type of the entry (the \<^verbatim>\<open>T\<close> and
  \<^verbatim>\<open>C\<close> it was created with); \<open>colName\<close> and \<open>colPosition\<close> are what
  \<^verbatim>\<open>column().name()\<close> and \<^verbatim>\<open>column().position()\<close> return; \<open>colData\<close> is the
  container; \<open>nulls\<close> are the NULL flags of the cells; \<open>numOfRowsHandled\<close> is what
  the virtual \<^verbatim>\<open>numOfRowsHandled()\<close> of the entry reports.
\<close>

record ('t, 'v) extraction =
  elemType :: 't
  shape :: container
  colName :: string
  colPosition :: nat
  colData :: "'v list"
  nulls :: "bool list"
  numOfRowsHandled :: nat

record ('t, 'v) statement =
  extractions :: "('t, 'v) extraction list"
  storage :: storage

text \<open>
  A \<^verbatim>\<open>Row\<close>: the spec describes it as a view of one row index of its record set
  (the reference to the record set is implicit).
\<close>

record Row =
  rowIndex :: nat

text \<open>
  A \<^verbatim>\<open>RowIterator\<close> as the header constructs it: \<^verbatim>\<open>RowIterator(*this, true)\<close>,
  where the flag asks for the position past the last row. The reference to the record
  set is implicit.
\<close>

datatype rowIterator = RowIterator bool

text \<open>
  \<^verbatim>\<open>class RecordSet: private Statement\<close> with its four data members.
  \<^verbatim>\<open>RowMap\<close> is \<^verbatim>\<open>std::map<std::size_t, Row*>\<close>; a null iterator pointer is
  \<open>None\<close>.
\<close>

record ('t, 'v) recordSet = "('t, 'v) statement" +
  currentRow :: nat
  pBegin :: "rowIterator option"
  pEnd :: "rowIterator option"
  rowMap :: "nat \<rightharpoonup> Row"

subsection \<open>Row and column counts\<close>

text \<open>
  \<^verbatim>\<open>poco_assert (extractions().size()); return extractions()[0].get()->numOfRowsHandled();\<close>
  A failed \<^verbatim>\<open>poco_assert\<close> raises \<^verbatim>\<open>AssertionViolationException\<close>.
\<close>

definition rowCount :: "('t, 'v, 'z) recordSet_scheme \<Rightarrow> exn + nat" where
  "rowCount rs =
     (if length (extractions rs) = 0 then Inl AssertionViolationException
      else Inr (numOfRowsHandled (extractions rs ! 0)))"

definition columnCount :: "('t, 'v, 'z) recordSet_scheme \<Rightarrow> nat" where
  "columnCount rs = length (extractions rs)"

subsection \<open>Case-insensitive comparison\<close>

text \<open>
  Modelled from the spec: \<^verbatim>\<open>Poco::icompare\<close> of Poco/String.h, which is not among
  the sources. The spec says that names are compared case-insensitively; the model
  compares the two strings character by character after mapping the ASCII letters
  \<open>A\<close> to \<open>Z\<close> to lower case, and returns -1, 0 or 1.
\<close>

definition toLower :: "char \<Rightarrow> char" where
  "toLower c =
     (let n = (of_char c :: nat) in if 65 \<le> n \<and> n \<le> 90 then char_of (n + 32) else c)"

fun icompare :: "string \<Rightarrow> string \<Rightarrow> int" where
  "icompare [] [] = 0"
| "icompare [] (c2 # s2) = - 1"
| "icompare (c1 # s1) [] = 1"
| "icompare (c1 # s1) (c2 # s2) =
     (if (of_char (toLower c1) :: nat) < of_char (toLower c2) then - 1
      else if (of_char (toLower c1) :: nat) > of_char (toLower c2) then 1
      else icompare s1 s2)"

subsection \<open>Typed column access\<close>

text \<open>
  \<^verbatim>\<open>dynamic_cast<const InternalExtraction<T,C>*>(p)\<close>: the cast gives a null pointer
  unless the entry is an \<^verbatim>\<open>InternalExtraction<T,C>\<close>.
\<close>

definition dynamic_cast ::
  "'t \<Rightarrow> container \<Rightarrow> ('t, 'v) extraction \<Rightarrow> ('t, 'v) extraction option" where
  "dynamic_cast T C e = (if elemType e = T \<and> shape e = C then Some e else None)"

text \<open>
  \<^verbatim>\<open>column<T,C>(std::size_t pos)\<close>. The column returned is the one the entry holds;
  the model returns the entry, whose fields \<open>colName\<close>, \<open>colPosition\<close>, \<open>colData\<close>
  are the column.
\<close>

definition column_pos ::
  "'t \<Rightarrow> container \<Rightarrow> nat \<Rightarrow> ('t, 'v, 'z) recordSet_scheme \<Rightarrow> exn + ('t, 'v) extraction" where
  "column_pos T C pos rs =
     (let rExtractions = extractions rs; s = length rExtractions in
      if 0 = s \<or> pos \<ge> s then Inl RangeException
      else
        (case dynamic_cast T C (rExtractions ! pos) of
           Some pExtraction \<Rightarrow> Inr pExtraction
         | None \<Rightarrow> Inl BadCastException))"

text \<open>
  \<^verbatim>\<open>columnPosition<T,C>(name)\<close>: the loop over the extraction set, from \<^verbatim>\<open>begin()\<close>
  to \<^verbatim>\<open>end()\<close>; an entry the cast rejects is passed over, and falling out of the
  loop throws \<^verbatim>\<open>NotFoundException\<close>.
\<close>

fun columnPosition_loop ::
  "'t \<Rightarrow> container \<Rightarrow> string \<Rightarrow> ('t, 'v) extraction list \<Rightarrow> exn + nat" where
  "columnPosition_loop T C name [] = Inl NotFoundException"
| "columnPosition_loop T C name (e # es) =
     (case dynamic_cast T C e of
        Some col \<Rightarrow>
          if 0 = icompare name (colName col) then Inr (colPosition col)
          else columnPosition_loop T C name es
      | None \<Rightarrow> columnPosition_loop T C name es)"

definition columnPosition ::
  "'t \<Rightarrow> container \<Rightarrow> string \<Rightarrow> ('t, 'v, 'z) recordSet_scheme \<Rightarrow> exn + nat" where
  "columnPosition T C name rs = columnPosition_loop T C name (extractions rs)"

text \<open>\<^verbatim>\<open>column<T,C>(const std::string& name)\<close>.\<close>

definition column_name ::
  "'t \<Rightarrow> container \<Rightarrow> string \<Rightarrow> ('t, 'v, 'z) recordSet_scheme \<Rightarrow> exn + ('t, 'v) extraction" where
  "column_name T C name rs =
     (case columnPosition T C name rs of
        Inl ex \<Rightarrow> Inl ex
      | Inr pos \<Rightarrow> column_pos T C pos rs)"

subsection \<open>Typed value access\<close>

text \<open>
  Modelled from the spec: \<^verbatim>\<open>Column<T,C>::value(row)\<close> of Column.h, which is not among
  the sources. The column owns an ordered sequence of values, and an index outside it is
  a RangeError.
\<close>

definition column_value :: "('t, 'v) extraction \<Rightarrow> nat \<Rightarrow> exn + 'v" where
  "column_value col row =
     (if row < length (colData col) then Inr (colData col ! row) else Inl RangeException)"

text \<open>The call \<^verbatim>\<open>column<T,C>(...).value(row)\<close>: an exception of the first call propagates.\<close>

definition dot_value :: "exn + ('t, 'v) extraction \<Rightarrow> nat \<Rightarrow> exn + 'v" where
  "dot_value c row = (case c of Inl ex \<Rightarrow> Inl ex | Inr col \<Rightarrow> column_value col row)"

text \<open>\<^verbatim>\<open>value<T>(std::size_t col, std::size_t row)\<close>.\<close>

definition value_T_pos ::
  "'t \<Rightarrow> nat \<Rightarrow> nat \<Rightarrow> ('t, 'v, 'z) recordSet_scheme \<Rightarrow> exn + 'v" where
  "value_T_pos T col row rs =
     (case storage rs of
        STORAGE_VECTOR \<Rightarrow> dot_value (column_pos T Vector col rs) row
      | STORAGE_UNKNOWN \<Rightarrow> dot_value (column_pos T Vector col rs) row
      | STORAGE_LIST \<Rightarrow> dot_value (column_pos T List col rs) row
      | STORAGE_DEQUE \<Rightarrow> dot_value (column_pos T Deque col rs) row
      | STORAGE_OTHER k \<Rightarrow> Inl IllegalStateException)"

text \<open>\<^verbatim>\<open>value<T>(const std::string& name, std::size_t row)\<close>.\<close>

definition value_T_name ::
  "'t \<Rightarrow> string \<Rightarrow> nat \<Rightarrow> ('t, 'v, 'z) recordSet_scheme \<Rightarrow> exn + 'v" where
  "value_T_name T name row rs =
     (case storage rs of
        STORAGE_VECTOR \<Rightarrow> dot_value (column_name T Vector name rs) row
      | STORAGE_UNKNOWN \<Rightarrow> dot_value (column_name T Vector name rs) row
      | STORAGE_LIST \<Rightarrow> dot_value (column_name T List name rs) row
      | STORAGE_DEQUE \<Rightarrow> dot_value (column_name T Deque name rs) row
      | STORAGE_OTHER k \<Rightarrow> Inl IllegalStateException)"

subsection \<open>Assignment\<close>

text \<open>
  Modelled from the spec: \<^verbatim>\<open>Statement::operator =\<close> of Statement.h, which is not among
  the sources. The new statement replaces the statement part of the object: its
  extraction set and its storage kind.
\<close>

definition Statement_assign ::
  "('t, 'v, 'z) statement_scheme \<Rightarrow> ('t, 'v) statement \<Rightarrow> ('t, 'v, 'z) statement_scheme" where
  "Statement_assign this stmt = this\<lparr>extractions := extractions stmt, storage := storage stmt\<rparr>"

text \<open>
  \<^verbatim>\<open>RecordSet::operator = (const Statement& stmt)\<close>:
  \<^verbatim>\<open>_currentRow = 0; return Statement::operator = (stmt);\<close>
  The model returns the object after the assignment.
\<close>

definition operator_assign ::
  "('t, 'v) recordSet \<Rightarrow> ('t, 'v) statement \<Rightarrow> ('t, 'v) recordSet" where
  "operator_assign rs stmt = Statement_assign (rs\<lparr>currentRow := 0\<rparr>) stmt"

text \<open>
  \<^verbatim>\<open>RecordSet::end()\<close>: \<^verbatim>\<open>if (!_pEnd) _pEnd = new RowIterator(*this, true); return *_pEnd;\<close>
\<close>

definition end_rs :: "('t, 'v) recordSet \<Rightarrow> rowIterator \<times> ('t, 'v) recordSet" where
  "end_rs rs =
     (case pEnd rs of
        None \<Rightarrow> (RowIterator True, rs\<lparr>pEnd := Some (RowIterator True)\<rparr>)
      | Some it \<Rightarrow> (it, rs))"

subsection \<open>Construction\<close>

text \<open>
  Modelled from the spec: the constructor \<^verbatim>\<open>RecordSet(const Statement&)\<close> of
  RecordSet.cpp, which is not among the sources. The record set wraps the statement, the
  cursor defaults to 0, the row cache is empty and the two iterators are created lazily.
\<close>

definition RecordSet_ctor :: "('t, 'v) statement \<Rightarrow> ('t, 'v) recordSet" where
  "RecordSet_ctor rStatement =
     \<lparr>extractions = extractions rStatement, storage = storage rStatement,
      currentRow = 0, pBegin = None, pEnd = None, rowMap = Map.empty\<rparr>"

text \<open>
  Modelled from the spec: the contract of the execution context, whose code is not among
  the sources. Section 6 of the spec: \<^verbatim>\<open>numOfRowsHandled()\<close> per extraction entry, and
  all entries must report the same value. It is a property a statement may or may not
  have: nothing in the header tests it.
\<close>

definition executed :: "('t, 'v, 'z) statement_scheme \<Rightarrow> bool" where
  "executed stmt =
     (\<forall>e \<in> set (extractions stmt). \<forall>e' \<in> set (extractions stmt).
        numOfRowsHandled e = numOfRowsHandled e')"

subsection \<open>NULL tests and dynamically typed values\<close>












subsection \<open>Cursor movement and row retrieval\<close>

text \<open>
  Modelled from the spec: \<^verbatim>\<open>RecordSet::moveFirst()\<close> and \<^verbatim>\<open>RecordSet::moveNext()\<close>,
  declared in the header and defined in RecordSet.cpp, which is not among the sources.
  Section 4.4 of the spec: \<^verbatim>\<open>moveFirst()\<close> sets the cursor to 0 and returns whether
  \<^verbatim>\<open>rowCount() > 0\<close>; \<^verbatim>\<open>moveNext()\<close> advances and returns true if
  \<^verbatim>\<open>cursor + 1 < rowCount()\<close>, and otherwise leaves the cursor unchanged and returns
  false. \<open>rowCount\<close> is the function of the header, and its exception propagates.
  The sum \<open>cursor + 1\<close> is the one of the natural numbers.
\<close>

definition moveFirst :: "('t, 'v) recordSet \<Rightarrow> exn + (bool \<times> ('t, 'v) recordSet)" where
  "moveFirst rs =
     (let rs' = rs\<lparr>currentRow := 0\<rparr> in
      case rowCount rs' of
        Inl ex \<Rightarrow> Inl ex
      | Inr n \<Rightarrow> Inr (n > 0, rs'))"

definition moveNext :: "('t, 'v) recordSet \<Rightarrow> exn + (bool \<times> ('t, 'v) recordSet)" where
  "moveNext rs =
     (case rowCount rs of
        Inl ex \<Rightarrow> Inl ex
      | Inr n \<Rightarrow>
          if currentRow rs + 1 < n then Inr (True, rs\<lparr>currentRow := currentRow rs + 1\<rparr>)
          else Inr (False, rs))"

text \<open>
  Modelled from the spec: \<^verbatim>\<open>RecordSet::row(pos)\<close>, declared in the header and defined
  in RecordSet.cpp, which is not among the sources. Section 4.4 of the spec: validate
  \<open>pos\<close> in range (else RangeError), return the cached Row for \<open>pos\<close>, constructing
  and caching it on first access.
\<close>

definition row :: "('t, 'v) recordSet \<Rightarrow> nat \<Rightarrow> exn + (Row \<times> ('t, 'v) recordSet)" where
  "row rs pos =
     (case rowCount rs of
        Inl ex \<Rightarrow> Inl ex
      | Inr n \<Rightarrow>
          if pos \<ge> n then Inl RangeException
          else
            (case rowMap rs pos of
               Some pRow \<Rightarrow> Inr (pRow, rs)
             | None \<Rightarrow>
                 Inr (\<lparr>rowIndex = pos\<rparr>, rs\<lparr>rowMap := (rowMap rs)(pos \<mapsto> \<lparr>rowIndex = pos\<rparr>)\<rparr>)))"

text \<open>
  The traversal \<^verbatim>\<open>moveFirst(); while (moveNext()) ;\<close> with a log of the positions the
  cursor is moved to: a call that returns true has moved the cursor to a row, and that
  row is appended to the log.
\<close>

function moveNext_loop ::
  "('t, 'v) recordSet \<Rightarrow> nat list \<Rightarrow> exn + (nat list \<times> ('t, 'v) recordSet)" where
  "moveNext_loop rs visited =
     (case moveNext rs of
        Inl ex \<Rightarrow> Inl ex
      | Inr (moved, rs') \<Rightarrow>
          if moved then moveNext_loop rs' (visited @ [currentRow rs'])
          else Inr (visited, rs'))"
  by pat_completeness auto
termination
proof (relation "measure (\<lambda>(rs, visited).
    case rowCount rs of Inl ex \<Rightarrow> 0 | Inr n \<Rightarrow> n - currentRow rs)")
  show "wf (measure (\<lambda>(rs :: ('t, 'v) recordSet, visited :: nat list).
    case rowCount rs of Inl ex \<Rightarrow> 0 | Inr n \<Rightarrow> n - currentRow rs))"
    by simp
next
  fix rs :: "('t, 'v) recordSet" and visited :: "nat list" and x2 moved rs'
  assume "moveNext rs = Inr x2" and "(moved, rs') = x2" and "moved"
  then show "((rs', visited @ [currentRow rs']), rs, visited)
    \<in> measure (\<lambda>(rs, visited). case rowCount rs of Inl ex \<Rightarrow> 0 | Inr n \<Rightarrow> n - currentRow rs)"
    by (auto simp: moveNext_def rowCount_def split: sum.splits if_splits)
qed

declare moveNext_loop.simps [simp del]

definition traverse :: "('t, 'v) recordSet \<Rightarrow> exn + (nat list \<times> ('t, 'v) recordSet)" where
  "traverse rs =
     (case moveFirst rs of
        Inl ex \<Rightarrow> Inl ex
      | Inr (ok, rs') \<Rightarrow> moveNext_loop rs' (if ok then [currentRow rs'] else []))"

subsection \<open>Reachable record sets\<close>

text \<open>
  The record sets a caller can obtain: constructed over a statement, then changed by the
  member functions that change the object, among them the assignment of another
  statement. Neither the constructor nor the assignment looks at what the entries of the
  statement report.
\<close>

inductive reachable :: "('t, 'v) recordSet \<Rightarrow> bool" where
  reach_ctor: "reachable (RecordSet_ctor stmt)"
| reach_assign: "reachable rs \<Longrightarrow> reachable (operator_assign rs stmt)"
| reach_moveFirst: "reachable rs \<Longrightarrow> moveFirst rs = Inr (b, rs') \<Longrightarrow> reachable rs'"
| reach_moveNext: "reachable rs \<Longrightarrow> moveNext rs = Inr (b, rs') \<Longrightarrow> reachable rs'"
| reach_row: "reachable rs \<Longrightarrow> row rs pos = Inr (r, rs') \<Longrightarrow> reachable rs'"
| reach_end: "reachable rs \<Longrightarrow> end_rs rs = (it, rs') \<Longrightarrow> reachable rs'"

subsection \<open>Example data\<close>

text \<open>
  The element types and the boxed values of the examples: a result of three rows and two
  columns, \<open>id\<close> = 1, 2, 3 and \<open>name\<close> = a, b, NULL, stored in vectors.
\<close>

datatype ctype = T_Int32 | T_String

datatype cell = I int | S string

definition col_id :: "(ctype, cell) extraction" where
  "col_id = \<lparr>elemType = T_Int32, shape = Vector, colName = ''id'', colPosition = 0,
     colData = [I 1, I 2, I 3], nulls = [False, False, False], numOfRowsHandled = 3\<rparr>"

definition col_name :: "(ctype, cell) extraction" where
  "col_name = \<lparr>elemType = T_String, shape = Vector, colName = ''name'', colPosition = 1,
     colData = [S ''a'', S ''b'', S ''''], nulls = [False, False, True],
     numOfRowsHandled = 3\<rparr>"

definition rs_people :: "(ctype, cell) recordSet" where
  "rs_people = \<lparr>extractions = [col_id, col_name], storage = STORAGE_VECTOR,
     currentRow = 0, pBegin = None, pEnd = None, rowMap = Map.empty\<rparr>"

definition rs_no_columns :: "(ctype, cell) recordSet" where
  "rs_no_columns = \<lparr>extractions = [], storage = STORAGE_VECTOR,
     currentRow = 0, pBegin = None, pEnd = None, rowMap = Map.empty\<rparr>"

definition stmt_other :: "(ctype, cell) statement" where
  "stmt_other = \<lparr>extractions = [col_name], storage = STORAGE_LIST\<rparr>"

text \<open>A record set with the cursor on the last row and the row of index 0 in its cache.\<close>

definition rs_cached :: "(ctype, cell) recordSet" where
  "rs_cached = rs_people\<lparr>currentRow := 2, rowMap := [0 \<mapsto> \<lparr>rowIndex = 0\<rparr>]\<rparr>"

text \<open>A third column whose name differs from the second one in letter case only.\<close>

definition col_name_dup :: "(ctype, cell) extraction" where
  "col_name_dup = \<lparr>elemType = T_String, shape = Vector, colName = ''NAME'', colPosition = 2,
     colData = [S ''x'', S ''y'', S ''z''], nulls = [False, False, False],
     numOfRowsHandled = 3\<rparr>"

definition rs_dup :: "(ctype, cell) recordSet" where
  "rs_dup = rs_people\<lparr>extractions := [col_id, col_name, col_name_dup]\<rparr>"

text \<open>A record set with one column and no row.\<close>

definition rs_no_rows :: "(ctype, cell) recordSet" where
  "rs_no_rows = \<lparr>extractions = [\<lparr>elemType = T_Int32, shape = Vector, colName = ''id'',
       colPosition = 0, colData = [], nulls = [], numOfRowsHandled = 0\<rparr>],
     storage = STORAGE_VECTOR, currentRow = 0, pBegin = None, pEnd = None,
     rowMap = Map.empty\<rparr>"

text \<open>
  Three columns where the second and the third carry the same name up to letter case
  and differ in element type.
\<close>

definition col_name_int :: "(ctype, cell) extraction" where
  "col_name_int = \<lparr>elemType = T_Int32, shape = Vector, colName = ''name'', colPosition = 1,
     colData = [I 7, I 8, I 9], nulls = [False, False, False], numOfRowsHandled = 3\<rparr>"

definition rs_typed_dup :: "(ctype, cell) recordSet" where
  "rs_typed_dup = rs_people\<lparr>extractions := [col_id, col_name_int, col_name_dup]\<rparr>"

text \<open>A statement whose two entries report different numbers of rows handled.\<close>

definition col_long :: "(ctype, cell) extraction" where
  "col_long = \<lparr>elemType = T_String, shape = Vector, colName = ''name'', colPosition = 1,
     colData = [S ''a'', S ''b'', S ''c'', S ''d'', S ''e''],
     nulls = [False, False, False, False, False], numOfRowsHandled = 5\<rparr>"

definition stmt_uneven :: "(ctype, cell) statement" where
  "stmt_uneven = \<lparr>extractions = [col_id, col_long], storage = STORAGE_VECTOR\<rparr>"

lemmas ex_defs = rs_people_def col_id_def col_name_def dynamic_cast_def column_pos_def
  column_name_def columnPosition_def dot_value_def column_value_def toLower_def
  value_T_pos_def value_T_name_def

section \<open>Theorems\<close>

subsection \<open>rowCount\<close>

text \<open>
  C10. \<open>rowCount()\<close> asserts that the extraction set has an entry and returns what the
  first entry reports as handled, whatever the other entries are; with no column the
  assertion fails, and \<open>rowCount()\<close> does not return 0.
\<close>

theorem rowCount_first_entry_only:
  "(extractions rs = [] \<longrightarrow> rowCount rs = Inl AssertionViolationException) \<and>
   (\<forall>e es. extractions rs = e # es \<longrightarrow> rowCount rs = Inr (numOfRowsHandled e)) \<and>
   (extractions rs = [] \<longrightarrow> rowCount rs \<noteq> Inr 0)"
  by (simp add: rowCount_def)

theorem rowCount_first_entry_only_witness:
  "extractions rs_no_columns = [] \<and>
   rowCount rs_no_columns = Inl AssertionViolationException \<and>
   rowCount rs_no_columns \<noteq> Inr 0 \<and>
   extractions rs_people = col_id # [col_name] \<and>
   rowCount rs_people = Inr (numOfRowsHandled col_id) \<and>
   numOfRowsHandled col_id = 3"
  using rowCount_first_entry_only [of rs_no_columns]
    rowCount_first_entry_only [of rs_people]
  by (simp add: rs_no_columns_def rs_people_def col_id_def)

subsection \<open>Assignment\<close>

text \<open>
  C1 (as amended). Assigning an executed statement to a record set sets the cursor to
  row 0 and replaces the extraction set and the storage kind by those of the new
  statement; the row cache and the two iterator pointers are left as they were.
\<close>

theorem operator_assign_keeps_row_cache:
  "currentRow (operator_assign rs stmt) = 0 \<and>
   extractions (operator_assign rs stmt) = extractions stmt \<and>
   storage (operator_assign rs stmt) = storage stmt \<and>
   rowMap (operator_assign rs stmt) = rowMap rs \<and>
   pBegin (operator_assign rs stmt) = pBegin rs \<and>
   pEnd (operator_assign rs stmt) = pEnd rs"
  by (simp add: operator_assign_def Statement_assign_def)

text \<open>
  The claim as stated fails: a row cached before the assignment is still in the cache
  after it.
\<close>

theorem operator_assign_discards_cache_counterexample:
  "rowMap rs_cached 0 = Some \<lparr>rowIndex = 0\<rparr> \<and>
   currentRow (operator_assign rs_cached stmt_other) = 0 \<and>
   rowMap (operator_assign rs_cached stmt_other) 0 = Some \<lparr>rowIndex = 0\<rparr>"
  by (simp add: operator_assign_def Statement_assign_def rs_cached_def)

subsection \<open>Typed column access\<close>

lemma columnPosition_loop_no_match:
  "\<forall>e \<in> set es. elemType e = T \<and> shape e = C \<longrightarrow> icompare name (colName e) \<noteq> 0 \<Longrightarrow>
   columnPosition_loop T C name es = Inl NotFoundException"
  by (induction es) (auto simp: dynamic_cast_def)

text \<open>
  C2 (as amended). By position, an access \<open>column<T,C>(pos)\<close> with \<open>pos\<close> in range
  whose entry has another element type or another container shape signals
  BadCastException (the TypeMismatchError). By name, the scan passes over the entries
  of another type or shape: when every entry that carries the name (ignoring case) is of
  another type or shape, \<open>column<T,C>(name)\<close> signals NotFoundException, as it does for
  a name that no column carries.
\<close>

theorem column_mismatch_by_position_and_by_name:
  "(pos < columnCount rs \<and>
    (elemType (extractions rs ! pos) \<noteq> T \<or> shape (extractions rs ! pos) \<noteq> C) \<longrightarrow>
      column_pos T C pos rs = Inl BadCastException) \<and>
   ((\<forall>e \<in> set (extractions rs).
       icompare name (colName e) = 0 \<longrightarrow> elemType e \<noteq> T \<or> shape e \<noteq> C) \<longrightarrow>
      column_name T C name rs = Inl NotFoundException)"
proof -
  have "column_name T C name rs = Inl NotFoundException"
    if "\<forall>e \<in> set (extractions rs). icompare name (colName e) = 0 \<longrightarrow> elemType e \<noteq> T \<or> shape e \<noteq> C"
  proof -
    from that have "columnPosition_loop T C name (extractions rs) = Inl NotFoundException"
      by (intro columnPosition_loop_no_match) auto
    then show ?thesis
      by (simp add: column_name_def columnPosition_def)
  qed
  moreover have "column_pos T C pos rs = Inl BadCastException"
    if "pos < columnCount rs"
      and "elemType (extractions rs ! pos) \<noteq> T \<or> shape (extractions rs ! pos) \<noteq> C"
    using that by (auto simp: column_pos_def columnCount_def dynamic_cast_def Let_def)
  ultimately show ?thesis by blast
qed

theorem column_mismatch_by_position_and_by_name_witness:
  "column_pos T_String Vector 0 rs_people = Inl BadCastException \<and>
   column_pos T_Int32 List 0 rs_people = Inl BadCastException \<and>
   column_name T_String Vector ''id'' rs_people = Inl NotFoundException \<and>
   column_name T_Int32 List ''id'' rs_people = Inl NotFoundException"
  using column_mismatch_by_position_and_by_name
      [where rs = rs_people and pos = 0 and T = T_String and C = Vector and name = "''id''"]
    column_mismatch_by_position_and_by_name
      [where rs = rs_people and pos = 0 and T = T_Int32 and C = List and name = "''id''"]
  by (simp add: rs_people_def col_id_def col_name_def columnCount_def toLower_def)

text \<open>
  The claim as stated fails by name: the column \<open>id\<close> holds 32-bit integers, and asking
  for it as a column of strings signals the same exception as asking for a name that
  does not exist.
\<close>

theorem column_by_name_mismatch_counterexample:
  "colName (extractions rs_people ! 0) = ''id'' \<and>
   elemType (extractions rs_people ! 0) = T_Int32 \<and>
   column_name T_Int32 Vector ''id'' rs_people = Inr col_id \<and>
   column_name T_String Vector ''id'' rs_people = Inl NotFoundException \<and>
   column_name T_String Vector ''nosuch'' rs_people = Inl NotFoundException"
  by (simp add: ex_defs)

lemma icompare_eq_0_iff: "icompare a b = 0 \<longleftrightarrow> map toLower a = map toLower b"
  by (induction a b rule: icompare.induct) auto

lemma columnPosition_loop_first_match:
  "i < length es \<Longrightarrow>
   elemType (es ! i) = T \<and> shape (es ! i) = C \<and> icompare name (colName (es ! i)) = 0 \<Longrightarrow>
   \<forall>j < i. \<not> (elemType (es ! j) = T \<and> shape (es ! j) = C \<and> icompare name (colName (es ! j)) = 0) \<Longrightarrow>
   columnPosition_loop T C name es = Inr (colPosition (es ! i))"
proof (induction es arbitrary: i)
  case Nil
  then show ?case by simp
next
  case (Cons e es)
  show ?case
  proof (cases i)
    case 0
    with Cons.prems show ?thesis by (simp add: dynamic_cast_def)
  next
    case (Suc k)
    with Cons.prems have k: "k < length es"
      and hit: "elemType (es ! k) = T \<and> shape (es ! k) = C \<and> icompare name (colName (es ! k)) = 0"
      by simp_all
    from Cons.prems(3) Suc
    have before: "\<forall>j < k. \<not> (elemType (es ! j) = T \<and> shape (es ! j) = C \<and> icompare name (colName (es ! j)) = 0)"
      by (metis Suc_less_eq nth_Cons_Suc)
    from Cons.prems(3) Suc
    have head: "\<not> (elemType e = T \<and> shape e = C \<and> icompare name (colName e) = 0)"
      by (metis nth_Cons_0 zero_less_Suc)
    have "columnPosition_loop T C name (e # es) = columnPosition_loop T C name es"
      using head by (auto simp: dynamic_cast_def)
    also have "\<dots> = Inr (colPosition (es ! k))"
      by (rule Cons.IH [OF k hit before])
    finally show ?thesis using Suc by simp
  qed
qed

lemma columnPosition_loop_ignores_case:
  "map toLower name = map toLower name' \<Longrightarrow>
   columnPosition_loop T C name es = columnPosition_loop T C name' es"
proof (induction es)
  case Nil
  then show ?case by simp
next
  case (Cons e es)
  have "(icompare name (colName e) = 0) = (icompare name' (colName e) = 0)"
    using Cons.prems by (simp add: icompare_eq_0_iff)
  with Cons show ?case
    by (auto simp: dynamic_cast_def)
qed

text \<open>
  C5 (as amended). \<open>columnPosition<T,C>(name)\<close> scans the extraction set in order;
  it passes over the entries that are not of the requested type \<open><T,C>\<close> and compares
  the names of the others case-insensitively. The first entry of type \<open><T,C>\<close> whose
  name equals \<open>name\<close> ignoring case wins: the result is the position of that entry,
  whether or not an entry of another type with that name precedes it. A name that no
  entry of type \<open><T,C>\<close> carries, in particular a name that no column carries, signals
  NotFoundException. Two names that differ in letter case only give the same result, for
  the position and for the column.
\<close>

theorem columnPosition_scan_first_match_ignoring_case:
  "(\<forall>i < length (extractions rs).
      elemType (extractions rs ! i) = T \<and> shape (extractions rs ! i) = C \<and>
      icompare name (colName (extractions rs ! i)) = 0 \<and>
      (\<forall>j < i. \<not> (elemType (extractions rs ! j) = T \<and> shape (extractions rs ! j) = C \<and>
                  icompare name (colName (extractions rs ! j)) = 0)) \<longrightarrow>
      columnPosition T C name rs = Inr (colPosition (extractions rs ! i))) \<and>
   ((\<forall>e \<in> set (extractions rs).
       elemType e = T \<and> shape e = C \<longrightarrow> icompare name (colName e) \<noteq> 0) \<longrightarrow>
      columnPosition T C name rs = Inl NotFoundException) \<and>
   ((\<forall>e \<in> set (extractions rs). icompare name (colName e) \<noteq> 0) \<longrightarrow>
      columnPosition T C name rs = Inl NotFoundException) \<and>
   (map toLower name = map toLower name' \<longrightarrow>
      icompare name name' = 0 \<and>
      columnPosition T C name rs = columnPosition T C name' rs \<and>
      column_name T C name rs = column_name T C name' rs)"
proof (intro conjI allI impI)
  fix i
  assume "i < length (extractions rs)"
    and "elemType (extractions rs ! i) = T \<and> shape (extractions rs ! i) = C \<and>
      icompare name (colName (extractions rs ! i)) = 0 \<and>
      (\<forall>j < i. \<not> (elemType (extractions rs ! j) = T \<and> shape (extractions rs ! j) = C \<and>
                  icompare name (colName (extractions rs ! j)) = 0))"
  then show "columnPosition T C name rs = Inr (colPosition (extractions rs ! i))"
    unfolding columnPosition_def by (intro columnPosition_loop_first_match) simp_all
next
  assume "\<forall>e \<in> set (extractions rs).
      elemType e = T \<and> shape e = C \<longrightarrow> icompare name (colName e) \<noteq> 0"
  then show "columnPosition T C name rs = Inl NotFoundException"
    unfolding columnPosition_def by (rule columnPosition_loop_no_match)
next
  assume "\<forall>e \<in> set (extractions rs). icompare name (colName e) \<noteq> 0"
  then show "columnPosition T C name rs = Inl NotFoundException"
    unfolding columnPosition_def by (intro columnPosition_loop_no_match) simp
next
  assume eq: "map toLower name = map toLower name'"
  then show "icompare name name' = 0"
    by (simp add: icompare_eq_0_iff)
  from eq show pos: "columnPosition T C name rs = columnPosition T C name' rs"
    unfolding columnPosition_def by (rule columnPosition_loop_ignores_case)
  then show "column_name T C name rs = column_name T C name' rs"
    by (simp add: column_name_def)
qed

theorem columnPosition_scan_first_match_ignoring_case_witness:
  "columnPosition T_String Vector ''Name'' rs_dup = Inr 1 \<and>
   columnPosition T_String Vector ''nAME'' rs_dup = Inr 1 \<and>
   column_name T_String Vector ''Name'' rs_dup = column_name T_String Vector ''nAME'' rs_dup \<and>
   column_name T_String Vector ''nAME'' rs_dup = Inr col_name \<and>
   columnPosition T_String Vector ''nosuch'' rs_dup = Inl NotFoundException \<and>
   columnPosition T_String Vector ''id'' rs_dup = Inl NotFoundException"
proof -
  note defs = rs_dup_def rs_people_def col_id_def col_name_def col_name_dup_def toLower_def
  have len: "(1::nat) < length (extractions rs_dup)"
    by (simp add: defs)
  have hit: "elemType (extractions rs_dup ! 1) = T_String \<and>
      shape (extractions rs_dup ! 1) = Vector \<and>
      icompare ''Name'' (colName (extractions rs_dup ! 1)) = 0 \<and>
      (\<forall>j < 1. \<not> (elemType (extractions rs_dup ! j) = T_String \<and>
          shape (extractions rs_dup ! j) = Vector \<and>
          icompare ''Name'' (colName (extractions rs_dup ! j)) = 0))"
    by (simp add: defs)
  have same: "map toLower ''Name'' = map toLower ''nAME''"
    by code_simp
  have none: "\<forall>e \<in> set (extractions rs_dup). icompare ''nosuch'' (colName e) \<noteq> 0"
    by (simp add: defs)
  have other_type: "\<forall>e \<in> set (extractions rs_dup).
      elemType e = T_String \<and> shape e = Vector \<longrightarrow> icompare ''id'' (colName e) \<noteq> 0"
    by (simp add: defs)
  have pos: "colPosition (extractions rs_dup ! 1) = 1"
    by (simp add: defs)
  have col: "column_pos T_String Vector 1 rs_dup = Inr col_name"
    by (simp add: defs column_pos_def dynamic_cast_def)
  note thm1 = columnPosition_scan_first_match_ignoring_case
    [where rs = rs_dup and T = T_String and C = Vector and name = "''Name''" and name' = "''nAME''"]
  note thm2 = columnPosition_scan_first_match_ignoring_case
    [where rs = rs_dup and T = T_String and C = Vector and name = "''nosuch''"]
  note thm3 = columnPosition_scan_first_match_ignoring_case
    [where rs = rs_dup and T = T_String and C = Vector and name = "''id''"]
  from thm1 len hit pos have a: "columnPosition T_String Vector ''Name'' rs_dup = Inr 1"
    by metis
  from thm1 same have b: "columnPosition T_String Vector ''Name'' rs_dup =
      columnPosition T_String Vector ''nAME'' rs_dup"
    and c: "column_name T_String Vector ''Name'' rs_dup = column_name T_String Vector ''nAME'' rs_dup"
    by blast+
  from thm2 none have d: "columnPosition T_String Vector ''nosuch'' rs_dup = Inl NotFoundException"
    by blast
  from thm3 other_type
  have e: "columnPosition T_String Vector ''id'' rs_dup = Inl NotFoundException"
    by blast
  from a b c d e col show ?thesis
    by (simp add: column_name_def)
qed

text \<open>
  The claim as stated fails where a column of another type carries the name first: the
  column at position 1 is called \<open>name\<close> and holds 32-bit integers, and the lookup of
  \<open>name\<close> among the columns of strings gives position 2.
\<close>

theorem columnPosition_first_name_match_counterexample:
  "icompare ''name'' (colName (extractions rs_typed_dup ! 1)) = 0 \<and>
   colPosition (extractions rs_typed_dup ! 1) = 1 \<and>
   elemType (extractions rs_typed_dup ! 1) = T_Int32 \<and>
   columnPosition T_String Vector ''name'' rs_typed_dup = Inr 2"
  by (simp add: rs_typed_dup_def rs_people_def col_id_def col_name_int_def col_name_dup_def
      toLower_def columnPosition_def dynamic_cast_def)

text \<open>
  C6. A position \<open>pos \<ge> columnCount()\<close> makes \<open>column<T,C>(pos)\<close> signal
  RangeException, and, where \<open>rowCount()\<close> returns \<open>n\<close>, a position \<open>p \<ge> n\<close> makes
  \<open>row(p)\<close> signal RangeException; so do \<open>column<T,C>(columnCount())\<close> and
  \<open>row(rowCount())\<close>. (Positions are unsigned: outside the range means at or beyond
  the count.)
\<close>

theorem out_of_range_signals_RangeException:
  "(columnCount rs \<le> pos \<longrightarrow> column_pos T C pos rs = Inl RangeException) \<and>
   column_pos T C (columnCount rs) rs = Inl RangeException \<and>
   (\<forall>n. rowCount rs = Inr n \<longrightarrow>
      (\<forall>p. n \<le> p \<longrightarrow> row rs p = Inl RangeException) \<and> row rs n = Inl RangeException)"
  by (simp add: columnCount_def column_pos_def row_def)

theorem out_of_range_signals_RangeException_witness:
  "columnCount rs_people = 2 \<and> rowCount rs_people = Inr 3 \<and>
   column_pos T_Int32 Vector 2 rs_people = Inl RangeException \<and>
   column_pos T_Int32 Vector 5 rs_people = Inl RangeException \<and>
   row rs_people 3 = Inl RangeException \<and>
   row rs_people 4 = Inl RangeException \<and>
   row rs_people 2 = Inr (\<lparr>rowIndex = 2\<rparr>, rs_people\<lparr>rowMap := [2 \<mapsto> \<lparr>rowIndex = 2\<rparr>]\<rparr>)"
  using out_of_range_signals_RangeException [where rs = rs_people and pos = 5 and T = T_Int32 and C = Vector]
  by (simp add: rs_people_def col_id_def col_name_def columnCount_def rowCount_def row_def
      column_pos_def)

subsection \<open>Dispatch on the storage kind\<close>

text \<open>
  C8. \<open>value<T>(col, row)\<close> and \<open>value<T>(name, row)\<close> dispatch on the storage kind:
  the vector, list and deque kinds select the column accessor of that shape, and a
  storage kind that is none of the enumerators signals IllegalStateException (the
  InvalidStateError).
\<close>

theorem value_storage_dispatch:
  "(storage rs = STORAGE_VECTOR \<longrightarrow>
      value_T_pos T col r rs = dot_value (column_pos T Vector col rs) r \<and>
      value_T_name T name r rs = dot_value (column_name T Vector name rs) r) \<and>
   (storage rs = STORAGE_LIST \<longrightarrow>
      value_T_pos T col r rs = dot_value (column_pos T List col rs) r \<and>
      value_T_name T name r rs = dot_value (column_name T List name rs) r) \<and>
   (storage rs = STORAGE_DEQUE \<longrightarrow>
      value_T_pos T col r rs = dot_value (column_pos T Deque col rs) r \<and>
      value_T_name T name r rs = dot_value (column_name T Deque name rs) r) \<and>
   (\<forall>k. storage rs = STORAGE_OTHER k \<longrightarrow>
      value_T_pos T col r rs = Inl IllegalStateException \<and>
      value_T_name T name r rs = Inl IllegalStateException)"
  by (simp add: value_T_pos_def value_T_name_def)

theorem value_storage_dispatch_witness:
  "value_T_pos T_Int32 0 1 rs_people = Inr (I 2) \<and>
   value_T_name T_String ''Name'' 1 rs_people = Inr (S ''b'') \<and>
   value_T_pos T_Int32 0 1 (rs_people\<lparr>storage := STORAGE_LIST\<rparr>) = Inl BadCastException \<and>
   value_T_name T_Int32 ''id'' 1 (rs_people\<lparr>storage := STORAGE_LIST\<rparr>) = Inl NotFoundException \<and>
   value_T_pos T_Int32 0 1 (rs_people\<lparr>storage := STORAGE_DEQUE\<rparr>) = Inl BadCastException \<and>
   value_T_name T_Int32 ''id'' 1 (rs_people\<lparr>storage := STORAGE_DEQUE\<rparr>) = Inl NotFoundException \<and>
   value_T_pos T_Int32 0 1 (rs_people\<lparr>storage := STORAGE_OTHER 7\<rparr>) = Inl IllegalStateException \<and>
   value_T_name T_Int32 ''id'' 1 (rs_people\<lparr>storage := STORAGE_OTHER 7\<rparr>) = Inl IllegalStateException"
  using value_storage_dispatch [where rs = rs_people and T = T_Int32 and col = 0 and r = 1]
    value_storage_dispatch [where rs = rs_people and T = T_String and name = "''Name''" and r = 1]
    value_storage_dispatch [where rs = "rs_people\<lparr>storage := STORAGE_LIST\<rparr>"
      and T = T_Int32 and col = 0 and r = 1 and name = "''id''"]
    value_storage_dispatch [where rs = "rs_people\<lparr>storage := STORAGE_DEQUE\<rparr>"
      and T = T_Int32 and col = 0 and r = 1 and name = "''id''"]
    value_storage_dispatch [where rs = "rs_people\<lparr>storage := STORAGE_OTHER 7\<rparr>"
      and T = T_Int32 and col = 0 and r = 1 and name = "''id''"]
  by (simp add: ex_defs)

text \<open>
  C9. With the storage kind \<open>STORAGE_UNKNOWN\<close>, \<open>value<T>(col, row)\<close> is the
  vector-backed column access, the same as with \<open>STORAGE_VECTOR\<close>: the dispatch signals
  no IllegalStateException, and on a vector column of type \<open>T\<close> with the row in range
  the cell is returned.
\<close>

theorem value_storage_unknown_as_vector:
  "storage rs = STORAGE_UNKNOWN \<Longrightarrow>
     value_T_pos T col r rs = dot_value (column_pos T Vector col rs) r \<and>
     value_T_pos T col r rs = value_T_pos T col r (rs\<lparr>storage := STORAGE_VECTOR\<rparr>) \<and>
     value_T_pos T col r rs \<noteq> Inl IllegalStateException \<and>
     (col < length (extractions rs) \<and> elemType (extractions rs ! col) = T \<and>
      shape (extractions rs ! col) = Vector \<and> r < length (colData (extractions rs ! col)) \<longrightarrow>
        value_T_pos T col r rs = Inr (colData (extractions rs ! col) ! r))"
  by (auto simp: value_T_pos_def dot_value_def column_pos_def dynamic_cast_def column_value_def
      Let_def split: sum.splits option.splits if_splits)

theorem value_storage_unknown_as_vector_witness:
  "storage (rs_people\<lparr>storage := STORAGE_UNKNOWN\<rparr>) = STORAGE_UNKNOWN \<and>
   value_T_pos T_String 1 0 (rs_people\<lparr>storage := STORAGE_UNKNOWN\<rparr>) = Inr (S ''a'') \<and>
   value_T_pos T_String 1 0 (rs_people\<lparr>storage := STORAGE_UNKNOWN\<rparr>) =
     value_T_pos T_String 1 0 (rs_people\<lparr>storage := STORAGE_VECTOR\<rparr>)"
  using value_storage_unknown_as_vector
    [where rs = "rs_people\<lparr>storage := STORAGE_UNKNOWN\<rparr>" and T = T_String and col = 1 and r = 0]
  by (simp add: ex_defs)

subsection \<open>Cursor movement\<close>

lemma rowCount_currentRow_update:
  "rowCount (rs\<lparr>currentRow := c\<rparr>) = rowCount rs"
  by (simp add: rowCount_def)

lemma moveNext_loop_at_last:
  assumes "rowCount rs = Inr n" and "\<not> currentRow rs + 1 < n"
  shows "moveNext_loop rs visited = Inr (visited, rs)"
  using assms moveNext_loop.simps [of rs visited] by (simp add: moveNext_def)

lemma moveNext_loop_run:
  "rowCount rs = Inr n \<Longrightarrow> currentRow rs < n \<Longrightarrow> k = n - Suc (currentRow rs) \<Longrightarrow>
   moveNext_loop rs visited =
     Inr (visited @ [Suc (currentRow rs)..<n], rs\<lparr>currentRow := n - 1\<rparr>)"
proof (induction k arbitrary: rs visited)
  case 0
  then have last: "currentRow rs = n - 1" and stop: "\<not> currentRow rs + 1 < n"
    by simp_all
  from last have "rs\<lparr>currentRow := n - 1\<rparr> = rs"
    by (metis recordSet.surjective recordSet.update_convs(1))
  with moveNext_loop_at_last [OF "0.prems"(1) stop] stop show ?case
    by simp
next
  case (Suc k)
  let ?rs' = "rs\<lparr>currentRow := currentRow rs + 1\<rparr>"
  from Suc.prems have adv: "currentRow rs + 1 < n"
    by simp
  with Suc.prems have step: "moveNext rs = Inr (True, ?rs')"
    by (simp add: moveNext_def)
  have "moveNext_loop rs visited = moveNext_loop ?rs' (visited @ [currentRow ?rs'])"
    using moveNext_loop.simps [of rs visited] by (simp add: step)
  also have "\<dots> = Inr ((visited @ [currentRow ?rs']) @ [Suc (currentRow ?rs')..<n],
      ?rs'\<lparr>currentRow := n - 1\<rparr>)"
    using Suc.prems adv by (intro Suc.IH) (simp_all add: rowCount_currentRow_update)
  also have "(visited @ [currentRow ?rs']) @ [Suc (currentRow ?rs')..<n] =
      visited @ [Suc (currentRow rs)..<n]"
    using adv by (simp add: upt_conv_Cons)
  finally show ?case
    by simp
qed

lemma traverse_visits:
  assumes "rowCount rs = Inr n"
  shows "traverse rs = Inr ([0..<n], rs\<lparr>currentRow := n - 1\<rparr>)"
proof (cases "n = 0")
  case True
  with assms show ?thesis
    by (simp add: traverse_def moveFirst_def rowCount_currentRow_update
        moveNext_loop_at_last [where n = n])
next
  case False
  let ?rs0 = "rs\<lparr>currentRow := 0\<rparr>"
  from False assms have "traverse rs = moveNext_loop ?rs0 [0]"
    by (simp add: traverse_def moveFirst_def rowCount_currentRow_update)
  also have "\<dots> = Inr ([0] @ [Suc (currentRow ?rs0)..<n], ?rs0\<lparr>currentRow := n - 1\<rparr>)"
    using False assms
    by (intro moveNext_loop_run [where k = "n - Suc (currentRow ?rs0)"])
      (simp_all add: rowCount_currentRow_update)
  finally show ?thesis
    using False by (simp add: upt_conv_Cons)
qed

text \<open>
  C4. Where \<open>rowCount()\<close> returns \<open>n\<close>: \<open>moveNext()\<close> advances the cursor by one and
  returns true if \<open>cursor + 1 < n\<close>, and otherwise returns false and leaves the record
  set as it is. The traversal \<open>moveFirst()\<close> followed by \<open>moveNext()\<close> until it
  returns false moves the cursor to the positions \<open>0, 1, ..., n - 1\<close> in this order:
  \<open>n\<close> distinct positions, strictly increasing, the last one \<open>n - 1\<close>, where the
  cursor stays; one more \<open>moveNext()\<close> returns false and changes nothing.
\<close>

theorem moveNext_and_traversal:
  assumes "rowCount rs = Inr n"
  shows "moveNext rs =
      Inr (if currentRow rs + 1 < n then (True, rs\<lparr>currentRow := currentRow rs + 1\<rparr>)
           else (False, rs)) \<and>
    (\<exists>visited rs'.
       traverse rs = Inr (visited, rs') \<and>
       visited = [0..<n] \<and>
       length visited = n \<and> distinct visited \<and> sorted_wrt (<) visited \<and>
       (0 < n \<longrightarrow> last visited = n - 1 \<and> currentRow rs' = n - 1) \<and>
       moveNext rs' = Inr (False, rs'))"
proof -
  have step: "moveNext rs =
      Inr (if currentRow rs + 1 < n then (True, rs\<lparr>currentRow := currentRow rs + 1\<rparr>)
           else (False, rs))"
    using assms by (simp add: moveNext_def)
  let ?end = "rs\<lparr>currentRow := n - 1\<rparr>"
  have trav: "traverse rs = Inr ([0..<n], ?end)"
    using assms by (rule traverse_visits)
  have final: "moveNext ?end = Inr (False, ?end)"
    using assms by (simp add: moveNext_def rowCount_currentRow_update)
  have order: "length [0..<n] = n \<and> distinct [0..<n] \<and> sorted_wrt (<) [0..<n]"
    by simp
  have ends: "0 < n \<longrightarrow> last [0..<n] = n - 1 \<and> currentRow ?end = n - 1"
    by (cases n) simp_all
  from step trav final order ends show ?thesis
    by blast
qed

theorem moveNext_and_traversal_witness:
  "rowCount rs_cached = Inr 3 \<and> currentRow rs_cached = 2 \<and>
   moveNext rs_cached = Inr (False, rs_cached) \<and>
   moveNext rs_people = Inr (True, rs_people\<lparr>currentRow := 1\<rparr>) \<and>
   traverse rs_cached = Inr ([0, 1, 2], rs_cached) \<and>
   rowCount rs_no_rows = Inr 0 \<and>
   traverse rs_no_rows = Inr ([], rs_no_rows)"
proof -
  have n: "rowCount rs_cached = Inr 3" and n': "rowCount rs_people = Inr 3"
    and n0: "rowCount rs_no_rows = Inr 0"
    by (simp_all add: rs_cached_def rs_people_def rs_no_rows_def rowCount_def col_id_def)
  have c: "currentRow rs_cached = 2" and c': "currentRow rs_people = 0"
    by (simp_all add: rs_cached_def rs_people_def)
  have upt: "[0..<3] = [0, 1, 2]"
    by code_simp
  have same: "rs_cached\<lparr>currentRow := 3 - 1\<rparr> = rs_cached"
    and same0: "rs_no_rows\<lparr>currentRow := 0 - 1\<rparr> = rs_no_rows"
    by (simp_all add: rs_cached_def rs_no_rows_def)
  from moveNext_and_traversal [OF n] c have a: "moveNext rs_cached = Inr (False, rs_cached)"
    by simp
  from moveNext_and_traversal [OF n'] c'
  have b: "moveNext rs_people = Inr (True, rs_people\<lparr>currentRow := 1\<rparr>)"
    by simp
  have "traverse rs_cached = Inr ([0..<3], rs_cached\<lparr>currentRow := 3 - 1\<rparr>)"
    using n by (rule traverse_visits)
  with upt same have d: "traverse rs_cached = Inr ([0, 1, 2], rs_cached)"
    by simp
  have "traverse rs_no_rows = Inr ([0..<0], rs_no_rows\<lparr>currentRow := 0 - 1\<rparr>)"
    using n0 by (rule traverse_visits)
  with same0 have e: "traverse rs_no_rows = Inr ([], rs_no_rows)"
    by simp
  from n n0 c a b d e show ?thesis by simp
qed

subsection \<open>The row count and the entries\<close>

text \<open>
  C3 (as amended). With a non-empty extraction set, the row count is the number of rows
  that the first entry reports as handled. It is the number that every entry reports
  exactly when all the entries report the same number; that is the obligation of the
  execution context, which the record set neither checks nor establishes.
\<close>

theorem rowCount_agrees_iff_entries_agree:
  "(extractions rs \<noteq> [] \<longrightarrow> rowCount rs = Inr (numOfRowsHandled (extractions rs ! 0))) \<and>
   ((\<forall>e \<in> set (extractions rs). rowCount rs = Inr (numOfRowsHandled e)) \<longleftrightarrow> executed rs)"
proof (cases "extractions rs")
  case Nil
  then show ?thesis
    by (simp add: executed_def)
next
  case (Cons x xs)
  then have first: "rowCount rs = Inr (numOfRowsHandled x)"
    by (simp add: rowCount_def)
  have mem: "x \<in> set (extractions rs)"
    using Cons by simp
  have "executed rs"
    if all: "\<forall>e \<in> set (extractions rs). rowCount rs = Inr (numOfRowsHandled e)"
    unfolding executed_def
  proof (intro ballI)
    fix e e'
    assume "e \<in> set (extractions rs)" and "e' \<in> set (extractions rs)"
    with all have "rowCount rs = Inr (numOfRowsHandled e)"
      and "rowCount rs = Inr (numOfRowsHandled e')"
      by blast+
    then show "numOfRowsHandled e = numOfRowsHandled e'"
      by (simp only: sum.inject)
  qed
  moreover have "\<forall>e \<in> set (extractions rs). rowCount rs = Inr (numOfRowsHandled e)"
    if ex: "executed rs"
  proof
    fix e
    assume "e \<in> set (extractions rs)"
    with ex mem have "numOfRowsHandled x = numOfRowsHandled e"
      unfolding executed_def by blast
    then show "rowCount rs = Inr (numOfRowsHandled e)"
      by (simp only: first)
  qed
  moreover from first Cons
  have "rowCount rs = Inr (numOfRowsHandled (extractions rs ! 0))"
    by simp
  ultimately show ?thesis
    by blast
qed

theorem rowCount_agrees_iff_entries_agree_witness:
  "extractions rs_people \<noteq> [] \<and> executed rs_people \<and>
   rowCount rs_people = Inr 3 \<and>
   rowCount rs_people = Inr (numOfRowsHandled col_id) \<and>
   rowCount rs_people = Inr (numOfRowsHandled col_name)"
proof -
  have ne: "extractions rs_people \<noteq> []"
    and xs: "extractions rs_people = [col_id, col_name]"
    and first: "extractions rs_people ! 0 = col_id"
    by (simp_all add: rs_people_def)
  have three: "numOfRowsHandled col_id = 3"
    by (simp add: col_id_def)
  have ex: "executed rs_people"
    by (simp add: executed_def rs_people_def col_id_def col_name_def)
  have mem: "col_id \<in> set (extractions rs_people)"
    and mem': "col_name \<in> set (extractions rs_people)"
    by (simp_all only: xs list.set insert_iff simp_thms)
  from rowCount_agrees_iff_entries_agree [of rs_people] ex
  have all: "\<forall>e \<in> set (extractions rs_people). rowCount rs_people = Inr (numOfRowsHandled e)"
    by blast
  from all mem have a: "rowCount rs_people = Inr (numOfRowsHandled col_id)"
    by blast
  from all mem' have b: "rowCount rs_people = Inr (numOfRowsHandled col_name)"
    by blast
  from a three have c: "rowCount rs_people = Inr 3"
    by (simp only:)
  from ne ex a b c show ?thesis
    by (simp only: simp_thms)
qed

text \<open>
  The claim as stated fails: a record set constructed over a statement whose entries
  report 3 and 5 rows is reachable, its row count is 3, and its second entry reports 5.
\<close>

theorem rowCount_uneven_entries_counterexample:
  "reachable (RecordSet_ctor stmt_uneven) \<and>
   rowCount (RecordSet_ctor stmt_uneven) = Inr 3 \<and>
   extractions (RecordSet_ctor stmt_uneven) ! 1 = col_long \<and>
   numOfRowsHandled col_long = 5"
proof -
  have "reachable (RecordSet_ctor stmt_uneven)"
    by (rule reach_ctor)
  moreover have "rowCount (RecordSet_ctor stmt_uneven) = Inr 3"
    by (simp add: rowCount_def RecordSet_ctor_def stmt_uneven_def col_id_def)
  moreover have "extractions (RecordSet_ctor stmt_uneven) ! 1 = col_long"
    by (simp add: RecordSet_ctor_def stmt_uneven_def)
  moreover have "numOfRowsHandled col_long = 5"
    by (simp add: col_long_def)
  ultimately show ?thesis
    by (simp only: simp_thms)
qed

subsection \<open>NULL coalescing\<close>












end
